theory Spec2Isabelle
  imports Complex_Main "HOL-Library.AList" "HOL-Library.List_Lexorder"
begin

section \<open>Python values\<close>

text \<open>
  A Python \<open>str\<close> is a sequence of Unicode code points and \<open>len\<close> counts code points, so a
  string is a list of code points here. \<open>py\<close> embeds the ASCII literals of the source.
  With \<open>List_Lexorder\<close> the order on these lists is the lexicographic order on code
  points, which is how Python compares strings.
\<close>

type_synonym pystr = "nat list"

definition py :: "string \<Rightarrow> pystr" where
  "py s = map of_char s"

text \<open>
  A Python \<open>float\<close> is either a number or NaN. The numbers are modelled as exact reals:
  rounding to 64 bits is not modelled. Every comparison with NaN is false, and NaN is truthy
  (only zero is falsy).
\<close>

datatype pyfloat = Fl real | NaN

fun float_le :: "pyfloat \<Rightarrow> real \<Rightarrow> bool" where
  "float_le (Fl x) b = (x \<le> b)"
| "float_le NaN b = False"

fun float_truthy :: "pyfloat \<Rightarrow> bool" where
  "float_truthy (Fl x) = (x \<noteq> 0)"
| "float_truthy NaN = True"

text \<open>The exceptions of the program; each carries the text that \<open>str(e)\<close> gives.\<close>

datatype error =
    FileNotFoundError pystr
  | ValueError pystr
  | TypeError pystr
  | OtherException pystr

fun str_of_error :: "error \<Rightarrow> pystr" where
  "str_of_error (FileNotFoundError m) = m"
| "str_of_error (ValueError m) = m"
| "str_of_error (TypeError m) = m"
| "str_of_error (OtherException m) = m"

section \<open>Tables\<close>

text \<open>
  A pandas column (Series) as \<open>read_csv\<close> produces it: all its values have the column's
  dtype. An \<open>object\<close> column holds strings, a missing field being NaN (\<open>None\<close> here); an
  \<open>int64\<close> column has no missing value; a \<open>float64\<close> column holds numbers or NaN; a
  \<open>bool\<close> column holds booleans. A column of mixed Python objects is outside this type.
\<close>

datatype series =
    ObjectSeries "pystr option list"
  | Int64Series "int list"
  | Float64Series "real option list"
  | BoolSeries "bool list"

datatype cell = Text pystr | Integer int | Floating real | Boolean bool | Missing

datatype dtype = Object | Int64 | Float64 | BoolDtype

fun opt_cell :: "('a \<Rightarrow> cell) \<Rightarrow> 'a option \<Rightarrow> cell" where
  "opt_cell f None = Missing"
| "opt_cell f (Some x) = f x"

fun values_of :: "series \<Rightarrow> cell list" where
  "values_of (ObjectSeries xs) = map (opt_cell Text) xs"
| "values_of (Int64Series xs) = map Integer xs"
| "values_of (Float64Series xs) = map (opt_cell Floating) xs"
| "values_of (BoolSeries xs) = map Boolean xs"

fun dtype_of :: "series \<Rightarrow> dtype" where
  "dtype_of (ObjectSeries xs) = Object"
| "dtype_of (Int64Series xs) = Int64"
| "dtype_of (Float64Series xs) = Float64"
| "dtype_of (BoolSeries xs) = BoolDtype"

text \<open>
  A DataFrame: the length of its index and its columns in order, each with its name.
  \<open>wf_df\<close> is the invariant of pandas that every column is as long as the index.
\<close>

record dataframe =
  n_rows :: nat
  series_of :: "(pystr \<times> series) list"

definition wf_df :: "dataframe \<Rightarrow> bool" where
  "wf_df df = list_all (\<lambda>c. length (values_of (snd c)) = n_rows df) (series_of df)"

definition df_columns :: "dataframe \<Rightarrow> pystr list" where
  "df_columns df = map fst (series_of df)"

text \<open>\<open>df[name]\<close>: the column of that name (the first one, should a name occur twice).\<close>

definition df_get :: "dataframe \<Rightarrow> pystr \<Rightarrow> series option" where
  "df_get df name = map_of (series_of df) name"

text \<open>\<open>df.rename(columns={old: new})\<close>: a new table; names other than \<open>old\<close> stay.\<close>

definition rename :: "dataframe \<Rightarrow> pystr \<Rightarrow> pystr \<Rightarrow> dataframe" where
  "rename df old new =
     df\<lparr>series_of := map (\<lambda>c. (if fst c = old then new else fst c, snd c)) (series_of df)\<rparr>"

text \<open>\<open>nunique()\<close>: the number of distinct values, NaN not counted.\<close>

definition nunique :: "series \<Rightarrow> nat" where
  "nunique s = length (remdups (filter (\<lambda>v. v \<noteq> Missing) (values_of s)))"

section \<open>The loader: column detection\<close>

definition query_possible_names :: "pystr list" where
  "query_possible_names =
     [py ''query'', py ''Query'', py ''sql'', py ''SQL'', py ''statement'', py ''Payload'',
      py ''payload'']"

definition label_possible_names :: "pystr list" where
  "label_possible_names = [py ''label'', py ''Label'', py ''target'', py ''class'', py ''Label '']"

text \<open>\<open>df.select_dtypes(include=['object']).columns\<close>\<close>

definition text_cols :: "dataframe \<Rightarrow> pystr list" where
  "text_cols df = map fst (filter (\<lambda>c. dtype_of (snd c) = Object) (series_of df))"

text \<open>\<open>df.select_dtypes(include=[np.number])\<close>: the integer and float columns, not the
  boolean ones.\<close>

definition numeric_cols :: "dataframe \<Rightarrow> (pystr \<times> series) list" where
  "numeric_cols df =
     filter (\<lambda>c. dtype_of (snd c) = Int64 \<or> dtype_of (snd c) = Float64) (series_of df)"

definition detect_query_column :: "dataframe \<Rightarrow> error + pystr" where
  "detect_query_column df =
     (case find (\<lambda>col. col \<in> set (df_columns df)) query_possible_names of
        Some col \<Rightarrow> Inr col
      | None \<Rightarrow>
          (case text_cols df of
             col # _ \<Rightarrow> Inr col
           | [] \<Rightarrow> Inl (ValueError (py ''Could not detect query column''))))"

definition detect_label_column :: "dataframe \<Rightarrow> error + pystr" where
  "detect_label_column df =
     (case find (\<lambda>col. col \<in> set (df_columns df)) label_possible_names of
        Some col \<Rightarrow> Inr col
      | None \<Rightarrow>
          (case find (\<lambda>c. nunique (snd c) = 2) (numeric_cols df) of
             Some c \<Rightarrow> Inr (fst c)
           | None \<Rightarrow> Inl (ValueError (py ''Could not detect label column''))))"

section \<open>The loader: reading the file\<close>

text \<open>
  What the loader sees of the file system: the configured raw-data directory, the names
  of the files \<open>glob("*.csv")\<close> yields there (in its order), \<open>os.path.join\<close> (and
  the text of the TypeError it raises when the file name is \<open>None\<close>, which depends on the
  Python version), \<open>os.path.exists\<close>, and the outcome of \<open>pd.read_csv\<close> on a path (a
  table or the exception it raises).
\<close>

record env =
  raw_data_path :: pystr
  glob_csv :: "pystr list"
  os_path_join :: "pystr \<Rightarrow> pystr \<Rightarrow> pystr"
  join_none_message :: pystr
  os_path_exists :: "pystr \<Rightarrow> bool"
  read_csv :: "pystr \<Rightarrow> error + dataframe"

text \<open>The body of the \<open>try\<close> block: its value, or the exception raised inside it.\<close>

definition load_try_block :: "env \<Rightarrow> pystr \<Rightarrow> error + dataframe" where
  "load_try_block e file_path =
     (case read_csv e file_path of
        Inl ex \<Rightarrow> Inl ex
      | Inr df \<Rightarrow>
          (case detect_query_column df of
             Inl ex \<Rightarrow> Inl ex
           | Inr query_col \<Rightarrow>
               (case detect_label_column df of
                  Inl ex \<Rightarrow> Inl ex
                | Inr label_col \<Rightarrow>
                    (let df1 = (if query_col \<noteq> py ''query''
                                then rename df query_col (py ''query'') else df);
                         df2 = (if label_col \<noteq> py ''label''
                                then rename df1 label_col (py ''label'') else df1)
                     in Inr df2))))"

text \<open>
  \<open>load_sql_injection_dataset\<close>. \<open>Inl\<close> is an exception that leaves the function.
  Otherwise the function returns a table or \<open>None\<close>, paired here with the line the
  \<open>except\<close> branch prints (the other console lines are not modelled). With no file name
  and \<open>auto_detect\<close> off, \<open>os.path.join\<close> is called on \<open>None\<close> and raises a TypeError.
\<close>

definition load_sql_injection_dataset ::
  "env \<Rightarrow> pystr option \<Rightarrow> bool \<Rightarrow> error + (dataframe option \<times> pystr list)" where
  "load_sql_injection_dataset e filename auto_detect =
     (case (if filename = None \<and> auto_detect
            then (case glob_csv e of
                    f # _ \<Rightarrow> Inr (Some f)
                  | [] \<Rightarrow> Inl (FileNotFoundError (py ''No CSV files found in data/raw/ directory'')))
            else Inr filename) of
        Inl ex \<Rightarrow> Inl ex
      | Inr None \<Rightarrow>
          Inl (TypeError (join_none_message e))
      | Inr (Some f) \<Rightarrow>
          (let file_path = os_path_join e (raw_data_path e) f in
           if \<not> os_path_exists e file_path
           then Inl (FileNotFoundError (py ''Dataset not found at: '' @ file_path))
           else (case load_try_block e file_path of
                   Inr df \<Rightarrow> Inr (Some df, [])
                 | Inl ex \<Rightarrow> Inr (None, [py '' Error loading dataset: '' @ str_of_error ex]))))"

text \<open>An environment for examples: one file \<open>data/raw/d.csv\<close>, which parses to \<open>df\<close>.\<close>

definition env_reading :: "dataframe \<Rightarrow> env" where
  "env_reading df =
     \<lparr>raw_data_path = py ''data/raw'', glob_csv = [py ''d.csv''],
      os_path_join = (\<lambda>a b. a @ py ''/'' @ b),
      join_none_message = py ''join() argument must be str, bytes, or os.PathLike object'',
      os_path_exists = (\<lambda>p. p = py ''data/raw/d.csv''),
      read_csv = (\<lambda>p. Inr df)\<rparr>"


section \<open>The analyzer\<close>

text \<open>
  What the analyzer takes from its platform: the number of bytes
  \<open>df.memory_usage(deep=True).sum()\<close> reports, and the text \<open>str\<close> gives for a float
  that is not NaN.
\<close>

record platform =
  memory_usage :: "dataframe \<Rightarrow> real"
  float_str :: "real \<Rightarrow> pystr"

subsection \<open>Class distribution\<close>

text \<open>
  \<open>value_counts().sort_index()\<close>: the distinct values in ascending order, each with the
  number of its occurrences. \<open>value_counts\<close> leaves NaN out.
\<close>

definition counts_sorted :: "'a::linorder list \<Rightarrow> ('a \<times> nat) list" where
  "counts_sorted xs = map (\<lambda>k. (k, count_list xs k)) (sort (remdups xs))"

definition dropna :: "'a option list \<Rightarrow> 'a list" where
  "dropna xs = List.map_filter (\<lambda>x. x) xs"

fun value_counts_sorted :: "series \<Rightarrow> (cell \<times> nat) list" where
  "value_counts_sorted (ObjectSeries xs) = map (apfst Text) (counts_sorted (dropna xs))"
| "value_counts_sorted (Int64Series xs) = map (apfst Integer) (counts_sorted xs)"
| "value_counts_sorted (Float64Series xs) = map (apfst Floating) (counts_sorted (dropna xs))"
| "value_counts_sorted (BoolSeries xs) = map (apfst Boolean) (counts_sorted xs)"

text \<open>
  \<open>to_dict()\<close>: a Python dict keeps the position of a key's first insertion and the value
  of its last.
\<close>

definition to_dict :: "('k \<times> 'v) list \<Rightarrow> ('k \<times> 'v) list" where
  "to_dict kvs = fold (\<lambda>kv d. AList.update (fst kv) (snd kv) d) kvs []"

text \<open>
  \<open>label_counts.max() / label_counts.min()\<close>. Both are NaN for an empty series, and so
  is their quotient. The counts of \<open>value_counts\<close> are positive, so the divisor is not zero.
\<close>

fun balance_ratio_of :: "nat list \<Rightarrow> pyfloat" where
  "balance_ratio_of [] = NaN"
| "balance_ratio_of (c # cs) = Fl (real (Max (set (c # cs))) / real (Min (set (c # cs))))"

text \<open>The tier the analyzer prints (the literals end in a space in the source).\<close>

definition quality :: "pyfloat \<Rightarrow> pystr" where
  "quality balance_ratio =
     (if float_le balance_ratio 1.2 then py ''EXCELLENT ''
      else if float_le balance_ratio 2.0 then py ''GOOD ''
      else if float_le balance_ratio 5.0 then py ''FAIR ''
      else py ''POOR '')"

subsection \<open>Missing values\<close>

text \<open>\<open>df.isnull().sum()\<close>: for every column the number of its missing values.\<close>

definition count_missing :: "series \<Rightarrow> nat" where
  "count_missing s = length (filter (\<lambda>v. v = Missing) (values_of s))"

definition isnull_sum :: "dataframe \<Rightarrow> (pystr \<times> nat) list" where
  "isnull_sum df = map (\<lambda>c. (fst c, count_missing (snd c))) (series_of df)"

subsection \<open>Query lengths\<close>

text \<open>
  \<open>astype(str)\<close>: the text of every cell. As in pandas 1 and 2, where a text column has
  the \<open>object\<close> dtype, a missing value becomes the text \<open>nan\<close>.
\<close>

fun digits :: "nat \<Rightarrow> pystr" where
  "digits n = (if n < 10 then [48 + n] else digits (n div 10) @ [48 + n mod 10])"

declare digits.simps [simp del]

definition str_int :: "int \<Rightarrow> pystr" where
  "str_int i = (if i < 0 then 45 # digits (nat (- i)) else digits (nat i))"

fun cell_str :: "platform \<Rightarrow> cell \<Rightarrow> pystr" where
  "cell_str p (Text s) = s"
| "cell_str p (Integer i) = str_int i"
| "cell_str p (Floating x) = float_str p x"
| "cell_str p (Boolean b) = (if b then py ''True'' else py ''False'')"
| "cell_str p Missing = py ''nan''"

text \<open>\<open>query_lengths = df['query'].astype(str).str.len()\<close>\<close>

definition query_lengths :: "platform \<Rightarrow> series \<Rightarrow> nat list" where
  "query_lengths p s = map (\<lambda>v. length (cell_str p v)) (values_of s)"

text \<open>
  The statistics of a series of lengths. Each is NaN where pandas gives NaN: on an empty
  series, and for the standard deviation (which divides by \<open>n - 1\<close>) on fewer than two
  values. The minimum and the maximum are integers in the source and are embedded in the
  floats here.
\<close>

definition series_mean :: "nat list \<Rightarrow> pyfloat" where
  "series_mean xs = (if xs = [] then NaN else Fl (real (sum_list xs) / real (length xs)))"

definition series_max :: "nat list \<Rightarrow> pyfloat" where
  "series_max xs = (if xs = [] then NaN else Fl (real (Max (set xs))))"

definition series_min :: "nat list \<Rightarrow> pyfloat" where
  "series_min xs = (if xs = [] then NaN else Fl (real (Min (set xs))))"

definition series_median :: "nat list \<Rightarrow> pyfloat" where
  "series_median xs =
     (let ys = sort xs; n = length xs in
      if n = 0 then NaN
      else if odd n then Fl (real (ys ! (n div 2)))
      else Fl ((real (ys ! (n div 2 - 1)) + real (ys ! (n div 2))) / 2))"

definition series_std :: "nat list \<Rightarrow> pyfloat" where
  "series_std xs =
     (let n = length xs; m = real (sum_list xs) / real n in
      if n < 2 then NaN
      else Fl (sqrt (sum_list (map (\<lambda>x. (real x - m)\<^sup>2) xs) / real (n - 1))))"

text \<open>The three buckets of the length distribution.\<close>

definition short_queries :: "nat list \<Rightarrow> nat" where
  "short_queries ql = length (filter (\<lambda>l. l < 50) ql)"

definition medium_queries :: "nat list \<Rightarrow> nat" where
  "medium_queries ql = length (filter (\<lambda>l. l \<ge> 50 \<and> l < 200) ql)"

definition long_queries :: "nat list \<Rightarrow> nat" where
  "long_queries ql = length (filter (\<lambda>l. l \<ge> 200) ql)"

subsection \<open>The overview\<close>

record length_stats =
  avg_length :: pyfloat
  median_length :: pyfloat
  min_length :: pyfloat
  max_length :: pyfloat
  std_length :: pyfloat

record overview =
  total_records :: nat
  total_columns :: nat
  columns :: "pystr list"
  class_distribution :: "(cell \<times> nat) list option"
  balance_ratio :: "pyfloat option"
  missing_values :: "(pystr \<times> nat) list"
  memory_usage_mb :: real
  query_stats :: "length_stats option"

text \<open>
  What \<open>dataset_overview\<close> writes to the console about the classes and the lengths: the
  balance tier, and the three bucket counts. Each is absent when its column is.
\<close>

record overview_console =
  balance_quality_line :: "pystr option"
  length_distribution_line :: "(nat \<times> nat \<times> nat) option"

text \<open>
  \<open>dataset_overview\<close> as a function of the table's value: the report it returns and what
  it prints (as far as modelled), paired with the table they were computed from. What the
  function does to the objects of the program is in the next section.
\<close>

definition dataset_overview ::
  "platform \<Rightarrow> dataframe \<Rightarrow> (overview \<times> overview_console) \<times> dataframe" where
  "dataset_overview p df =
     (let total_records = n_rows df;
          total_columns = length (df_columns df);
          memory_usage = memory_usage p df / 1024\<^sup>2;
          label_counts = map_option value_counts_sorted (df_get df (py ''label''));
          balance_ratio = map_option (\<lambda>lc. balance_ratio_of (map snd lc)) label_counts;
          missing_values = isnull_sum df;
          query_lengths = map_option (query_lengths p) (df_get df (py ''query''));
          query_stats = map_option (\<lambda>ql.
              \<lparr>avg_length = series_mean ql, median_length = series_median ql,
               min_length = series_min ql, max_length = series_max ql,
               std_length = series_std ql\<rparr>) query_lengths
      in ((\<lparr>total_records = total_records,
             total_columns = total_columns,
             columns = df_columns df,
             class_distribution = map_option to_dict label_counts,
             balance_ratio = balance_ratio,
             missing_values = to_dict missing_values,
             memory_usage_mb = memory_usage,
             query_stats = query_stats\<rparr>,
            \<lparr>balance_quality_line = map_option quality balance_ratio,
             length_distribution_line =
               map_option (\<lambda>ql. (short_queries ql, medium_queries ql, long_queries ql))
                 query_lengths\<rparr>),
           df))"

section \<open>The analyzer on the store\<close>

text \<open>
  The objects of the running program live in a store, and a variable holds the address of
  its object: the table the caller passes, and the pandas objects the calls of
  \<open>dataset_overview\<close> create (the column \<open>df['label']\<close> or \<open>df['query']\<close>, the counts of
  \<open>value_counts().sort_index()\<close>, the column sums of \<open>isnull().sum()\<close>, the lengths of
  \<open>astype(str).str.len()\<close>). The store is the list of the objects; an address is a
  position in it.
\<close>

type_synonym addr = nat

datatype pyobj =
    FrameObj dataframe
  | SeriesObj series
  | CountsObj "(cell \<times> nat) list"
  | ColumnSumsObj "(pystr \<times> nat) list"
  | LengthsObj "nat list"

type_synonym store = "pyobj list"

type_synonym 'a eff = "store \<Rightarrow> (error + 'a) \<times> store"

text \<open>
  A call is a transformer of the store that returns a value or raises.
\<close>

definition eff_return :: "'a \<Rightarrow> 'a eff" where
  "eff_return x = (\<lambda>st. (Inr x, st))"

definition eff_raise :: "error \<Rightarrow> 'a eff" where
  "eff_raise ex = (\<lambda>st. (Inl ex, st))"

definition eff_bind :: "'a eff \<Rightarrow> ('a \<Rightarrow> 'b eff) \<Rightarrow> 'b eff" where
  "eff_bind m f = (\<lambda>st. case m st of (Inl ex, st') \<Rightarrow> (Inl ex, st') | (Inr x, st') \<Rightarrow> f x st')"

text \<open>
  A pandas call that returns a new object allocates it behind the objects that exist.
  Reading an address gives its object; a method called on an object of another kind raises
  an AttributeError.
\<close>

definition alloc :: "pyobj \<Rightarrow> addr eff" where
  "alloc obj = (\<lambda>st. (Inr (length st), st @ [obj]))"

definition deref :: "addr \<Rightarrow> pyobj eff" where
  "deref a = (\<lambda>st. if a < length st then (Inr (st ! a), st)
                    else (Inl (OtherException (py ''AttributeError'')), st))"

definition frame_at :: "addr \<Rightarrow> dataframe eff" where
  "frame_at a = eff_bind (deref a) (\<lambda>obj. case obj of
       FrameObj df \<Rightarrow> eff_return df
     | _ \<Rightarrow> eff_raise (OtherException (py ''AttributeError'')))"

definition series_at :: "addr \<Rightarrow> series eff" where
  "series_at a = eff_bind (deref a) (\<lambda>obj. case obj of
       SeriesObj s \<Rightarrow> eff_return s
     | _ \<Rightarrow> eff_raise (OtherException (py ''AttributeError'')))"

definition counts_at :: "addr \<Rightarrow> (cell \<times> nat) list eff" where
  "counts_at a = eff_bind (deref a) (\<lambda>obj. case obj of
       CountsObj c \<Rightarrow> eff_return c
     | _ \<Rightarrow> eff_raise (OtherException (py ''AttributeError'')))"

definition sums_at :: "addr \<Rightarrow> (pystr \<times> nat) list eff" where
  "sums_at a = eff_bind (deref a) (\<lambda>obj. case obj of
       ColumnSumsObj c \<Rightarrow> eff_return c
     | _ \<Rightarrow> eff_raise (OtherException (py ''AttributeError'')))"

definition lengths_at :: "addr \<Rightarrow> nat list eff" where
  "lengths_at a = eff_bind (deref a) (\<lambda>obj. case obj of
       LengthsObj ls \<Rightarrow> eff_return ls
     | _ \<Rightarrow> eff_raise (OtherException (py ''AttributeError'')))"

text \<open>
  The pandas calls of \<open>dataset_overview\<close>, each on the address of its receiver. The
  ones that return a Series return a new object and leave their receiver as it is:
  indexing a column, \<open>value_counts\<close> and \<open>sort_index\<close> (not in place), \<open>isnull\<close> and
  \<open>sum\<close>, \<open>astype\<close> (a copy) and \<open>str.len\<close>.
\<close>

definition df_len :: "addr \<Rightarrow> nat eff" where
  "df_len df = eff_bind (frame_at df) (\<lambda>t. eff_return (n_rows t))"

definition df_columns_list :: "addr \<Rightarrow> pystr list eff" where
  "df_columns_list df = eff_bind (frame_at df) (\<lambda>t. eff_return (df_columns t))"

definition df_memory_usage :: "platform \<Rightarrow> addr \<Rightarrow> real eff" where
  "df_memory_usage p df = eff_bind (frame_at df) (\<lambda>t. eff_return (memory_usage p t))"

definition df_getitem :: "addr \<Rightarrow> pystr \<Rightarrow> addr eff" where
  "df_getitem df name = eff_bind (frame_at df) (\<lambda>t. case df_get t name of
       Some s \<Rightarrow> alloc (SeriesObj s)
     | None \<Rightarrow> eff_raise (OtherException (py ''KeyError'')))"

text \<open>
  \<open>df[name] = s\<close>, the assignment in place that the comments of \<open>dataset_overview\<close> say
  it avoids for the lengths. It writes the table's object. \<open>dataset_overview\<close> does not
  call it; it is here as the mutation the property below excludes.
\<close>

definition df_setitem :: "addr \<Rightarrow> pystr \<Rightarrow> series \<Rightarrow> unit eff" where
  "df_setitem df name s = eff_bind (frame_at df) (\<lambda>t st.
       (Inr (),
        st[df := FrameObj (t\<lparr>series_of :=
            (if name \<in> set (df_columns t)
             then map (\<lambda>c. if fst c = name then (name, s) else c) (series_of t)
             else series_of t @ [(name, s)])\<rparr>)]))"

definition series_value_counts_sort_index :: "addr \<Rightarrow> addr eff" where
  "series_value_counts_sort_index s =
     eff_bind (series_at s) (\<lambda>x. alloc (CountsObj (value_counts_sorted x)))"

definition counts_balance_ratio :: "addr \<Rightarrow> pyfloat eff" where
  "counts_balance_ratio c = eff_bind (counts_at c) (\<lambda>lc. eff_return (balance_ratio_of (map snd lc)))"

definition counts_to_dict :: "addr \<Rightarrow> (cell \<times> nat) list eff" where
  "counts_to_dict c = eff_bind (counts_at c) (\<lambda>lc. eff_return (to_dict lc))"

definition df_isnull_sum :: "addr \<Rightarrow> addr eff" where
  "df_isnull_sum df = eff_bind (frame_at df) (\<lambda>t. alloc (ColumnSumsObj (isnull_sum t)))"

definition sums_to_dict :: "addr \<Rightarrow> (pystr \<times> nat) list eff" where
  "sums_to_dict m = eff_bind (sums_at m) (\<lambda>mv. eff_return (to_dict mv))"

definition series_astype_str_len :: "platform \<Rightarrow> addr \<Rightarrow> addr eff" where
  "series_astype_str_len p s =
     eff_bind (series_at s) (\<lambda>x. alloc (LengthsObj (query_lengths p x)))"

text \<open>
  \<open>dataset_overview\<close> on the store: \<open>df\<close> is the address of the table. The calls follow
  the source in its order.
\<close>

definition dataset_overview_on :: "platform \<Rightarrow> addr \<Rightarrow> (overview \<times> overview_console) eff" where
  "dataset_overview_on p df =
     eff_bind (df_len df) (\<lambda>total_records.
     eff_bind (df_columns_list df) (\<lambda>cols.
     eff_bind (df_memory_usage p df) (\<lambda>mem.
     eff_bind (if py ''label'' \<in> set cols
               then eff_bind (df_getitem df (py ''label'')) (\<lambda>labels.
                    eff_bind (series_value_counts_sort_index labels) (\<lambda>label_counts.
                    eff_bind (counts_balance_ratio label_counts) (\<lambda>balance_ratio.
                    eff_return (Some label_counts, Some balance_ratio))))
               else eff_return (None, None)) (\<lambda>(label_counts, balance_ratio).
     eff_bind (df_isnull_sum df) (\<lambda>missing_values.
     eff_bind (if py ''query'' \<in> set cols
               then eff_bind (df_getitem df (py ''query'')) (\<lambda>queries.
                    eff_bind (series_astype_str_len p queries) (\<lambda>query_lengths.
                    eff_bind (lengths_at query_lengths) (\<lambda>ql.
                    eff_return (Some ql))))
               else eff_return None) (\<lambda>query_lengths.
     eff_bind (case label_counts of
                 Some lc \<Rightarrow> eff_bind (counts_to_dict lc) (\<lambda>d. eff_return (Some d))
               | None \<Rightarrow> eff_return None) (\<lambda>class_distribution.
     eff_bind (sums_to_dict missing_values) (\<lambda>missing_dict.
     eff_return
       (\<lparr>total_records = total_records,
         total_columns = length cols,
         columns = cols,
         class_distribution = class_distribution,
         balance_ratio = balance_ratio,
         missing_values = missing_dict,
         memory_usage_mb = mem / 1024\<^sup>2,
         query_stats = map_option (\<lambda>ql.
             \<lparr>avg_length = series_mean ql, median_length = series_median ql,
              min_length = series_min ql, max_length = series_max ql,
              std_length = series_std ql\<rparr>) query_lengths\<rparr>,
        \<lparr>balance_quality_line = map_option quality balance_ratio,
         length_distribution_line =
           map_option (\<lambda>ql. (short_queries ql, medium_queries ql, long_queries ql))
             query_lengths\<rparr>)))))))))"

section \<open>Sample queries\<close>

text \<open>
  The preview of one text, and the loop over the samples that both branches of
  \<open>show_sample_queries\<close> run: for the sample at position \<open>i\<close> (from 1) it prints the
  length of the text and the preview.
\<close>

definition display_query :: "pystr \<Rightarrow> pystr" where
  "display_query query_str =
     (if length query_str > 200 then take 200 query_str @ py ''...'' else query_str)"

definition show_samples :: "platform \<Rightarrow> cell list \<Rightarrow> (nat \<times> nat \<times> pystr) list" where
  "show_samples p samples =
     map (\<lambda>(i, query). let query_str = cell_str p query
                        in (i, length query_str, display_query query_str))
       (zip [1 ..< Suc (length samples)] samples)"

text \<open>\<open>label == 0\<close> and the like: numbers compare by value, and \<open>False\<close> is 0.\<close>

fun cell_num :: "cell \<Rightarrow> real option" where
  "cell_num (Integer i) = Some (real_of_int i)"
| "cell_num (Floating x) = Some x"
| "cell_num (Boolean b) = Some (if b then 1 else 0)"
| "cell_num (Text s) = None"
| "cell_num Missing = None"

definition cell_eq :: "cell \<Rightarrow> cell \<Rightarrow> bool" where
  "cell_eq a b =
     (case (cell_num a, cell_num b) of
        (Some x, Some y) \<Rightarrow> x = y
      | _ \<Rightarrow> a = b \<and> a \<noteq> Missing)"

text \<open>\<open>df[df['label'] == label]['query'].head(n_samples)\<close>, for \<open>n_samples\<close> not negative.\<close>

definition class_samples :: "series \<Rightarrow> series \<Rightarrow> cell \<Rightarrow> nat \<Rightarrow> cell list" where
  "class_samples labels queries label n_samples =
     take n_samples
       (map snd (filter (\<lambda>r. cell_eq (fst r) label) (zip (values_of labels) (values_of queries))))"

text \<open>
  \<open>show_sample_queries\<close> for one class (the body of the loop over the labels; the order
  in which Python's \<open>sorted\<close> visits the distinct labels is not modelled), and for a table
  with no label column. A table with no \<open>query\<close> column raises a KeyError (\<open>None\<close>).
\<close>

definition show_class_samples ::
  "platform \<Rightarrow> dataframe \<Rightarrow> cell \<Rightarrow> nat \<Rightarrow> (nat \<times> nat \<times> pystr) list option" where
  "show_class_samples p df label n_samples =
     (case (df_get df (py ''label''), df_get df (py ''query'')) of
        (Some labels, Some queries) \<Rightarrow>
          Some (show_samples p (class_samples labels queries label n_samples))
      | _ \<Rightarrow> None)"

definition show_random_samples ::
  "platform \<Rightarrow> dataframe \<Rightarrow> nat \<Rightarrow> (nat \<times> nat \<times> pystr) list option" where
  "show_random_samples p df n_samples =
     (case df_get df (py ''query'') of
        Some queries \<Rightarrow> Some (show_samples p (take n_samples (values_of queries)))
      | None \<Rightarrow> None)"

section \<open>The driver\<close>

text \<open>
  The sections of the complete results document that the properties below are about. The
  balance tier: \<open>overview_data.get('balance_ratio')\<close> is falsy for \<open>None\<close> and for zero, and
  the tier then keeps its initial value.
\<close>

definition balance_quality :: "overview \<Rightarrow> pystr" where
  "balance_quality overview_data =
     (case balance_ratio overview_data of
        None \<Rightarrow> py ''EXCELLENT''
      | Some r \<Rightarrow>
          if float_truthy r then
            (if float_le r 1.2 then py ''EXCELLENT''
             else if float_le r 2.0 then py ''GOOD''
             else if float_le r 5.0 then py ''FAIR''
             else py ''POOR'')
          else py ''EXCELLENT'')"

text \<open>\<open>query_stats_safe\<close>: the driver computes the length statistics again from the table.\<close>

definition query_stats_safe :: "platform \<Rightarrow> dataframe \<Rightarrow> length_stats option" where
  "query_stats_safe p df =
     (case df_get df (py ''query'') of
        None \<Rightarrow> None
      | Some s \<Rightarrow>
          (let query_lengths = query_lengths p s in
           Some \<lparr>avg_length = series_mean query_lengths,
                 median_length = series_median query_lengths,
                 min_length = series_min query_lengths,
                 max_length = series_max query_lengths,
                 std_length = series_std query_lengths\<rparr>))"

text \<open>
  \<open>query_statistics.length_distribution\<close>: the driver computes the lengths again from
  the table. The percentage entries, which are roundings of these counts over the number
  of rows, are left out. A table with no \<open>query\<close> column raises a KeyError (\<open>None\<close>).
\<close>

record length_distribution =
  short_queries_under_50 :: nat
  medium_queries_50_200 :: nat
  long_queries_over_200 :: nat

definition driver_length_distribution :: "platform \<Rightarrow> dataframe \<Rightarrow> length_distribution option" where
  "driver_length_distribution p df =
     (case df_get df (py ''query'') of
        None \<Rightarrow> None
      | Some s \<Rightarrow>
          (let query_lengths = query_lengths p s in
           Some \<lparr>short_queries_under_50 = short_queries query_lengths,
                 medium_queries_50_200 = medium_queries query_lengths,
                 long_queries_over_200 = long_queries query_lengths\<rparr>))"

text \<open>\<open>data_quality\<close>, without its entries for the data types and the duplicates.\<close>

record data_quality =
  dq_missing_values :: "(pystr \<times> nat) list"
  missing_values_total :: nat
  has_missing_values :: bool
  quality_status :: pystr

definition driver_data_quality :: "overview \<Rightarrow> data_quality" where
  "driver_data_quality overview_data =
     \<lparr>dq_missing_values = missing_values overview_data,
      missing_values_total = sum_list (map snd (missing_values overview_data)),
      has_missing_values = (sum_list (map snd (missing_values overview_data)) > 0),
      quality_status = (if sum_list (map snd (missing_values overview_data)) = 0
                        then py ''EXCELLENT'' else py ''NEEDS_ATTENTION'')\<rparr>"

section \<open>Properties of the loader\<close>

text \<open>
  The two ways detection fails, in the words of the specification: no candidate name is a
  column and the typed fallback finds nothing.
\<close>

definition query_undetectable :: "dataframe \<Rightarrow> bool" where
  "query_undetectable df =
     (\<not> list_ex (\<lambda>col. col \<in> set (df_columns df)) query_possible_names \<and> text_cols df = [])"

definition label_undetectable :: "dataframe \<Rightarrow> bool" where
  "label_undetectable df =
     (\<not> list_ex (\<lambda>col. col \<in> set (df_columns df)) label_possible_names \<and>
      \<not> list_ex (\<lambda>c. nunique (snd c) = 2) (numeric_cols df))"

text \<open>A table with one boolean column: neither detection finds anything in it.\<close>

definition flags_table :: dataframe where
  "flags_table = \<lparr>n_rows = 2, series_of = [(py ''flag'', BoolSeries [True, False])]\<rparr>"

text \<open>The table of the specification's example: columns \<open>Payload\<close> and \<open>Label \<close>.\<close>

definition payload_table :: dataframe where
  "payload_table =
     \<lparr>n_rows = 2,
      series_of = [(py ''Payload'', ObjectSeries [Some (py ''SELECT 1''), Some (py ''1 OR 1=1'')]),
                   (py ''Label '', Int64Series [0, 1])]\<rparr>"

lemma find_None_list_ex: "(find P xs = None) = (\<not> list_ex P xs)"
  by (auto simp add: find_None_iff list_ex_iff)

lemma detect_query_fails:
  "query_undetectable df \<Longrightarrow>
   detect_query_column df = Inl (ValueError (py ''Could not detect query column''))"
  by (simp add: query_undetectable_def detect_query_column_def find_None_list_ex[symmetric])

lemma detect_query_Inl:
  "detect_query_column df = Inl ex \<Longrightarrow>
   query_undetectable df \<and> ex = ValueError (py ''Could not detect query column'')"
  by (auto simp add: query_undetectable_def detect_query_column_def
      find_None_list_ex[symmetric] split: option.splits list.splits)

lemma detect_label_Inl:
  "detect_label_column df = Inl ex \<Longrightarrow>
   label_undetectable df \<and> ex = ValueError (py ''Could not detect label column'')"
  by (auto simp add: label_undetectable_def detect_label_column_def
      find_None_list_ex[symmetric] split: option.splits list.splits)

lemma flags_table_undetectable: "query_undetectable flags_table \<and> label_undetectable flags_table"
  by (simp add: query_undetectable_def label_undetectable_def flags_table_def df_columns_def
      query_possible_names_def label_possible_names_def py_def text_cols_def numeric_cols_def)

text \<open>
  No Value error ever leaves the loader: the only exceptions that propagate are the ones
  raised before the \<open>try\<close> block.
\<close>

lemma load_raises_no_ValueError:
  "load_sql_injection_dataset e filename auto_detect \<noteq> Inl (ValueError m)"
  by (auto simp add: load_sql_injection_dataset_def Let_def
      split: sum.splits option.splits list.splits if_splits)

text \<open>
  C1 (as stated, refuted): on the table with one boolean column neither column can be
  detected, and the call returns \<open>None\<close> after printing the error line; the Value error
  does not reach the caller.
\<close>

theorem load_undetectable_counterexample:
  "load_sql_injection_dataset (env_reading flags_table) None True =
     Inr (None, [py '' Error loading dataset: Could not detect query column'']) \<and>
   load_sql_injection_dataset (env_reading flags_table) None True \<noteq>
     Inl (ValueError (py ''Could not detect query column''))"
  by (simp add: load_sql_injection_dataset_def env_reading_def load_try_block_def
      detect_query_column_def flags_table_def df_columns_def query_possible_names_def py_def
      text_cols_def)

text \<open>
  C1 (amended): when the file is found and parses to a table in which neither a text
  column nor a label column can be detected, the Value error raised by detection is caught
  by the loader's own handler like every other exception of the \<open>try\<close> block: the call
  prints the error line and returns \<open>None\<close>.
\<close>

theorem load_detection_failure_returns_None:
  assumes "filename = Some f \<or> (filename = None \<and> auto_detect \<and> glob_csv e = f # fs)"
    and "os_path_exists e (os_path_join e (raw_data_path e) f)"
    and "read_csv e (os_path_join e (raw_data_path e) f) = Inr df"
    and "query_undetectable df" and "label_undetectable df"
  shows "load_sql_injection_dataset e filename auto_detect =
           Inr (None, [py '' Error loading dataset: Could not detect query column''])"
proof -
  have "load_try_block e (os_path_join e (raw_data_path e) f) =
          Inl (ValueError (py ''Could not detect query column''))"
    using assms(3,4) by (simp add: load_try_block_def detect_query_fails)
  with assms(1,2) show ?thesis
    by (auto simp add: load_sql_injection_dataset_def py_def)
qed

theorem load_detection_failure_returns_None_witness:
  "load_sql_injection_dataset (env_reading flags_table) (Some (py ''d.csv'')) False =
     Inr (None, [py '' Error loading dataset: Could not detect query column''])"
proof -
  let ?e = "env_reading flags_table"
  have 1: "Some (py ''d.csv'') = Some (py ''d.csv'') \<or>
           (Some (py ''d.csv'') = None \<and> False \<and> glob_csv ?e = py ''d.csv'' # [])"
    by simp
  have 2: "os_path_exists ?e (os_path_join ?e (raw_data_path ?e) (py ''d.csv''))"
    by (simp add: env_reading_def py_def)
  have 3: "read_csv ?e (os_path_join ?e (raw_data_path ?e) (py ''d.csv'')) = Inr flags_table"
    by (simp add: env_reading_def)
  show ?thesis
    using load_detection_failure_returns_None [OF 1 2 3] flags_table_undetectable by simp
qed

text \<open>
  C3: when the file parses to a table whose columns are exactly \<open>Payload\<close> and
  \<open>Label \<close> (in either order), detection selects \<open>Payload\<close> as the text column and
  \<open>Label \<close> as the label column, and the table returned has the columns \<open>query\<close> and
  \<open>label\<close> in their places, with the data unchanged.
\<close>

theorem load_payload_label:
  assumes "filename = Some f \<or> (filename = None \<and> auto_detect \<and> glob_csv e = f # fs)"
    and "os_path_exists e (os_path_join e (raw_data_path e) f)"
    and "read_csv e (os_path_join e (raw_data_path e) f) = Inr df"
    and "df_columns df = [py ''Payload'', py ''Label ''] \<or>
         df_columns df = [py ''Label '', py ''Payload'']"
  shows "detect_query_column df = Inr (py ''Payload'') \<and>
         detect_label_column df = Inr (py ''Label '') \<and>
         (\<exists>df'. load_sql_injection_dataset e filename auto_detect = Inr (Some df', []) \<and>
            df_columns df' =
              map (\<lambda>c. if c = py ''Payload'' then py ''query'' else py ''label'') (df_columns df) \<and>
            map snd (series_of df') = map snd (series_of df) \<and> n_rows df' = n_rows df)"
proof -
  have q: "detect_query_column df = Inr (py ''Payload'')"
    using assms(4) by (auto simp add: detect_query_column_def query_possible_names_def py_def)
  have l: "detect_label_column df = Inr (py ''Label '')"
    using assms(4) by (auto simp add: detect_label_column_def label_possible_names_def py_def)
  let ?df' = "rename (rename df (py ''Payload'') (py ''query'')) (py ''Label '') (py ''label'')"
  have t: "load_try_block e (os_path_join e (raw_data_path e) f) = Inr ?df'"
    using assms(3) q l by (simp add: load_try_block_def py_def)
  have r: "load_sql_injection_dataset e filename auto_detect = Inr (Some ?df', [])"
    using assms(1,2) t by (auto simp add: load_sql_injection_dataset_def)
  have c: "df_columns ?df' =
        map (\<lambda>c. if c = py ''Payload'' then py ''query'' else py ''label'') (df_columns df)"
    using assms(4) by (auto simp add: df_columns_def rename_def py_def comp_def)
  have d: "map snd (series_of ?df') = map snd (series_of df) \<and> n_rows ?df' = n_rows df"
    by (simp add: rename_def comp_def)
  from q l r c d show ?thesis by blast
qed

theorem load_payload_label_witness:
  "load_sql_injection_dataset (env_reading payload_table) None True =
     Inr (Some \<lparr>n_rows = 2,
            series_of = [(py ''query'', ObjectSeries [Some (py ''SELECT 1''), Some (py ''1 OR 1=1'')]),
                         (py ''label'', Int64Series [0, 1])]\<rparr>, [])"
proof -
  let ?e = "env_reading payload_table"
  have 1: "None = Some (py ''d.csv'') \<or>
           ((None :: pystr option) = None \<and> True \<and> glob_csv ?e = py ''d.csv'' # [])"
    by (simp add: env_reading_def)
  have 2: "os_path_exists ?e (os_path_join ?e (raw_data_path ?e) (py ''d.csv''))"
    by (simp add: env_reading_def py_def)
  have 3: "read_csv ?e (os_path_join ?e (raw_data_path ?e) (py ''d.csv'')) = Inr payload_table"
    by (simp add: env_reading_def)
  have 4: "df_columns payload_table = [py ''Payload'', py ''Label ''] \<or>
           df_columns payload_table = [py ''Label '', py ''Payload'']"
    by (simp add: payload_table_def df_columns_def)
  from load_payload_label [OF 1 2 3 4]
  obtain df' where a: "load_sql_injection_dataset ?e None True = Inr (Some df', [])"
    and b: "df_columns df' = [py ''query'', py ''label'']"
    and c: "map snd (series_of df') = map snd (series_of payload_table)"
    and d: "n_rows df' = n_rows payload_table"
    by (auto simp add: payload_table_def df_columns_def py_def)
  have "series_of df' = zip (map fst (series_of df')) (map snd (series_of df'))"
    by (simp add: zip_map_fst_snd)
  with b c have "series_of df' =
      [(py ''query'', ObjectSeries [Some (py ''SELECT 1''), Some (py ''1 OR 1=1'')]),
       (py ''label'', Int64Series [0, 1])]"
    by (simp add: df_columns_def payload_table_def)
  with d have "df' = \<lparr>n_rows = 2,
            series_of = [(py ''query'', ObjectSeries [Some (py ''SELECT 1''), Some (py ''1 OR 1=1'')]),
                         (py ''label'', Int64Series [0, 1])]\<rparr>"
    by (simp add: payload_table_def)
  with a show ?thesis by simp
qed

subsection \<open>What the loader keeps\<close>

text \<open>
  \<open>read_csv\<close> gives every column a name of its own (it numbers a repeated header), and
  every column the length of the index. The loader's renaming keeps both.
\<close>

lemma rename_columns:
  "df_columns (rename df old new) = map (\<lambda>c. if c = old then new else c) (df_columns df)"
  by (simp add: rename_def df_columns_def comp_def)

lemma rename_distinct:
  "distinct (df_columns df) \<Longrightarrow> new \<notin> set (df_columns df) \<Longrightarrow>
   distinct (df_columns (rename df old new))"
  unfolding rename_columns by (rule distinct_map [THEN iffD2]) (auto simp add: inj_on_def)

lemma rename_wf: "wf_df df \<Longrightarrow> wf_df (rename df old new)"
  by (simp add: wf_df_def rename_def list_all_iff)

lemma detect_query_not_query:
  "detect_query_column df = Inr col \<Longrightarrow> col \<noteq> py ''query'' \<Longrightarrow>
   py ''query'' \<notin> set (df_columns df)"
  by (auto simp add: detect_query_column_def query_possible_names_def
      split: option.splits list.splits if_splits)

lemma detect_label_not_label:
  "detect_label_column df = Inr col \<Longrightarrow> col \<noteq> py ''label'' \<Longrightarrow>
   py ''label'' \<notin> set (df_columns df)"
  by (auto simp add: detect_label_column_def label_possible_names_def
      split: option.splits list.splits if_splits)

lemma load_try_block_invariants:
  assumes "load_try_block e file_path = Inr df'" and "read_csv e file_path = Inr df"
    and "distinct (df_columns df)"
  shows "distinct (df_columns df') \<and> (wf_df df \<longrightarrow> wf_df df')"
proof -
  from assms(1,2) obtain q l where q: "detect_query_column df = Inr q"
    and l: "detect_label_column df = Inr l"
    and r: "df' = (let df1 = (if q \<noteq> py ''query'' then rename df q (py ''query'') else df)
                   in if l \<noteq> py ''label'' then rename df1 l (py ''label'') else df1)"
    by (auto simp add: load_try_block_def Let_def split: sum.splits)
  let ?df1 = "if q \<noteq> py ''query'' then rename df q (py ''query'') else df"
  have d1: "distinct (df_columns ?df1)"
    using assms(3) detect_query_not_query [OF q] by (simp add: rename_distinct)
  have n1: "l \<noteq> py ''label'' \<Longrightarrow> py ''label'' \<notin> set (df_columns ?df1)"
    using detect_label_not_label [OF l] by (auto simp add: rename_columns py_def)
  have "distinct (df_columns df')"
    using d1 n1 unfolding r Let_def by (simp add: rename_distinct)
  moreover have "wf_df df \<longrightarrow> wf_df df'"
    unfolding r Let_def by (simp add: rename_wf)
  ultimately show ?thesis by simp
qed

section \<open>Properties of the analyzer and the driver\<close>

subsection \<open>Example inputs\<close>

text \<open>
  A platform, a table whose third label is missing, a table whose second text is missing,
  and a report with a given balance ratio.
\<close>

definition example_platform :: platform where
  "example_platform = \<lparr>memory_usage = (\<lambda>df. 0), float_str = (\<lambda>x. [])\<rparr>"

definition missing_label_table :: dataframe where
  "missing_label_table =
     \<lparr>n_rows = 3,
      series_of = [(py ''query'', ObjectSeries [Some (py ''SELECT 1''), Some (py ''1 OR 1=1''), Some (py ''x'')]),
                   (py ''label'', Float64Series [Some 0, Some 1, None])]\<rparr>"

definition missing_query_table :: dataframe where
  "missing_query_table =
     \<lparr>n_rows = 2,
      series_of = [(py ''query'', ObjectSeries [Some (py ''SELECT 1''), None]),
                   (py ''label'', Int64Series [0, 1])]\<rparr>"

definition ratio_overview :: "real \<Rightarrow> overview" where
  "ratio_overview r =
     \<lparr>total_records = 0, total_columns = 0, columns = [], class_distribution = Some [],
      balance_ratio = Some (Fl r), missing_values = [], memory_usage_mb = 0, query_stats = None\<rparr>"

subsection \<open>Lemmas\<close>

lemma update_fresh: "k \<notin> fst ` set al \<Longrightarrow> AList.update k v al = al @ [(k, v)]"
  by (induction al) auto

lemma fold_update_distinct:
  "distinct (map fst (acc @ kvs)) \<Longrightarrow>
   fold (\<lambda>kv d. AList.update (fst kv) (snd kv) d) kvs acc = acc @ kvs"
proof (induction kvs arbitrary: acc)
  case Nil
  then show ?case by simp
next
  case (Cons kv kvs)
  have fresh: "fst kv \<notin> fst ` set acc" using Cons.prems by auto
  have "distinct (map fst ((acc @ [kv]) @ kvs))" using Cons.prems by simp
  from Cons.IH [OF this] show ?case by (simp add: update_fresh [OF fresh])
qed

lemma to_dict_distinct: "distinct (map fst kvs) \<Longrightarrow> to_dict kvs = kvs"
  using fold_update_distinct [of "[]" kvs] by (simp add: to_dict_def)

lemma sum_counts_sorted: "sum_list (map snd (counts_sorted xs)) = length xs"
proof -
  have "sum_list (map snd (counts_sorted xs)) = sum_list (map (count_list xs) (sort (remdups xs)))"
    by (simp add: counts_sorted_def comp_def)
  also have "\<dots> = sum (count_list xs) (set (sort (remdups xs)))"
    by (rule sum_list_distinct_conv_sum_set) simp
  also have "\<dots> = sum (count_list xs) (set xs)" by simp
  also have "\<dots> = length xs" by (rule sum_count_set) simp_all
  finally show ?thesis .
qed

lemma distinct_counts_sorted: "distinct (map fst (counts_sorted xs))"
  by (simp add: counts_sorted_def comp_def)

lemma distinct_value_counts: "distinct (map fst (value_counts_sorted s))"
  by (cases s) (simp_all add: comp_def distinct_map distinct_counts_sorted inj_on_def counts_sorted_def)

lemma length_dropna: "length (dropna xs) + length (filter (\<lambda>x. x = None) xs) = length xs"
  by (induction xs) (auto simp add: dropna_def split: option.splits)

lemma opt_cell_eq_Missing: "(\<And>x. f x \<noteq> Missing) \<Longrightarrow> (opt_cell f a = Missing) = (a = None)"
  by (cases a) auto

lemma count_missing_opt:
  "(\<And>x. f x \<noteq> Missing) \<Longrightarrow>
   length (filter (\<lambda>v. v = Missing) (map (opt_cell f) xs)) = length (filter (\<lambda>x. x = None) xs)"
  by (induction xs) (simp_all add: opt_cell_eq_Missing)

lemma sum_value_counts:
  "sum_list (map snd (value_counts_sorted s)) + count_missing s = length (values_of s)"
proof (cases s)
  case (ObjectSeries xs)
  have "count_missing s = length (filter (\<lambda>x. x = None) xs)"
    unfolding count_missing_def ObjectSeries values_of.simps
    by (rule count_missing_opt) simp
  then show ?thesis using length_dropna [of xs]
    by (simp add: ObjectSeries comp_def sum_counts_sorted)
next
  case (Int64Series xs)
  then show ?thesis by (simp add: comp_def sum_counts_sorted count_missing_def)
next
  case (Float64Series xs)
  have "count_missing s = length (filter (\<lambda>x. x = None) xs)"
    unfolding count_missing_def Float64Series values_of.simps
    by (rule count_missing_opt) simp
  then show ?thesis using length_dropna [of xs]
    by (simp add: Float64Series comp_def sum_counts_sorted)
next
  case (BoolSeries xs)
  then show ?thesis by (simp add: comp_def sum_counts_sorted count_missing_def)
qed

lemma wf_df_get: "wf_df df \<Longrightarrow> df_get df name = Some s \<Longrightarrow> length (values_of s) = n_rows df"
proof -
  assume w: "wf_df df" and g: "df_get df name = Some s"
  from g have "(name, s) \<in> set (series_of df)"
    by (simp add: df_get_def map_of_SomeD)
  with w show ?thesis by (force simp add: wf_df_def list_all_iff)
qed

lemma buckets_sum: "short_queries ql + medium_queries ql + long_queries ql = length ql"
  by (induction ql) (auto simp add: short_queries_def medium_queries_def long_queries_def)

lemma isnull_sum_keys: "map fst (isnull_sum df) = df_columns df"
  by (simp add: isnull_sum_def df_columns_def comp_def)

lemma py_quality_differ: "py ''EXCELLENT'' \<noteq> py ''NEEDS_ATTENTION''"
  by (simp add: py_def)

lemma show_samples_nth:
  "i < length samples \<Longrightarrow>
   show_samples p samples ! i =
     (Suc i, length (cell_str p (samples ! i)), display_query (cell_str p (samples ! i)))"
  by (simp add: show_samples_def Let_def del: upt_Suc)

lemma show_samples_length: "length (show_samples p samples) = length samples"
  by (simp add: show_samples_def del: upt_Suc)

lemma show_class_samples_entry:
  assumes "show_class_samples p df label n = Some out" and "i < length out"
  shows "\<exists>v. out ! i = (Suc i, length (cell_str p v), display_query (cell_str p v))"
proof -
  from assms(1) obtain samples where o: "out = show_samples p samples"
    by (auto simp add: show_class_samples_def split: option.splits)
  with assms(2) have "i < length samples" by (simp add: show_samples_length)
  then show ?thesis unfolding o by (auto simp add: show_samples_nth)
qed

lemma show_random_samples_entry:
  assumes "show_random_samples p df n = Some out" and "i < length out"
  shows "\<exists>v. out ! i = (Suc i, length (cell_str p v), display_query (cell_str p v))"
proof -
  from assms(1) obtain samples where o: "out = show_samples p samples"
    by (auto simp add: show_random_samples_def split: option.splits)
  with assms(2) have "i < length samples" by (simp add: show_samples_length)
  then show ?thesis unfolding o by (auto simp add: show_samples_nth)
qed

lemma sum_list_missing_split:
  "sum_list (map (\<lambda>v. if v = Missing then 3 else f v) vs) =
     sum_list (map f (filter (\<lambda>v. v \<noteq> Missing) vs)) + 3 * length (filter (\<lambda>v. v = Missing) vs)"
  by (induction vs) auto

lemma short_missing_split:
  "short_queries (map (\<lambda>v. if v = Missing then 3 else f v) vs) =
     short_queries (map f (filter (\<lambda>v. v \<noteq> Missing) vs)) + length (filter (\<lambda>v. v = Missing) vs)"
  by (induction vs) (auto simp add: short_queries_def)

lemma query_lengths_missing:
  "query_lengths p s = map (\<lambda>v. if v = Missing then 3 else length (cell_str p v)) (values_of s)"
  by (simp add: query_lengths_def py_def)

lemma map_of_map_snd:
  "map_of xs k = Some s \<Longrightarrow> map_of (map (\<lambda>c. (fst c, g (snd c))) xs) k = Some (g s)"
  by (induction xs) auto

lemma map_of_isnull_sum:
  "df_get df name = Some s \<Longrightarrow> map_of (isnull_sum df) name = Some (count_missing s)"
  by (simp add: isnull_sum_def df_get_def map_of_map_snd)

subsection \<open>The balance tier\<close>

text \<open>
  C2: the tier is a function of the balance ratio with every upper boundary in the lower
  tier: a ratio up to 1.2 gives EXCELLENT, above 1.2 and up to 2.0 GOOD, above 2.0 and up to
  5.0 FAIR, above 5.0 POOR. This holds for the tier of the results document
  (\<open>balance_quality\<close>) and for the tier the analyzer prints (\<open>quality\<close>, whose literals
  carry a trailing space in the source).
\<close>

theorem balance_quality_tiers:
  assumes "balance_ratio ov = Some (Fl r)"
  shows "(r \<le> 1.2 \<longrightarrow> balance_quality ov = py ''EXCELLENT'' \<and> quality (Fl r) = py ''EXCELLENT '') \<and>
         (1.2 < r \<and> r \<le> 2.0 \<longrightarrow> balance_quality ov = py ''GOOD'' \<and> quality (Fl r) = py ''GOOD '') \<and>
         (2.0 < r \<and> r \<le> 5.0 \<longrightarrow> balance_quality ov = py ''FAIR'' \<and> quality (Fl r) = py ''FAIR '') \<and>
         (5.0 < r \<longrightarrow> balance_quality ov = py ''POOR'' \<and> quality (Fl r) = py ''POOR '')"
  using assms by (auto simp add: balance_quality_def quality_def)

text \<open>
  The boundary points of C2: 1.2 gives EXCELLENT and not GOOD, 2.0 gives GOOD, 5.0 gives
  FAIR, 5.01 gives POOR.
\<close>

theorem balance_quality_tiers_witness:
  "balance_quality (ratio_overview 1.2) = py ''EXCELLENT'' \<and>
   balance_quality (ratio_overview 1.2) \<noteq> py ''GOOD'' \<and>
   balance_quality (ratio_overview 2.0) = py ''GOOD'' \<and>
   balance_quality (ratio_overview 5.0) = py ''FAIR'' \<and>
   balance_quality (ratio_overview 5.01) = py ''POOR''"
proof -
  have b: "\<And>r. balance_ratio (ratio_overview r) = Some (Fl r)"
    by (simp add: ratio_overview_def)
  have "py ''EXCELLENT'' \<noteq> py ''GOOD''" by (simp add: py_def)
  then show ?thesis
    using balance_quality_tiers [OF b, of "1.2"] balance_quality_tiers [OF b, of "2.0"]
      balance_quality_tiers [OF b, of "5.0"] balance_quality_tiers [OF b, of "5.01"]
    by simp
qed

subsection \<open>The class distribution\<close>

text \<open>
  C4 (as stated, refuted): in a table of three rows whose third label is missing, the
  class distribution counts two rows, and the total record count is three.
\<close>

theorem class_distribution_sum_counterexample:
  "class_distribution (fst (fst (dataset_overview example_platform missing_label_table))) =
     Some [(Floating 0, 1), (Floating 1, 1)] \<and>
   total_records (fst (fst (dataset_overview example_platform missing_label_table))) = 3 \<and>
   sum_list (map snd
       (the (class_distribution (fst (fst (dataset_overview example_platform missing_label_table))))))
     \<noteq> total_records (fst (fst (dataset_overview example_platform missing_label_table)))"
  by (simp add: dataset_overview_def Let_def missing_label_table_def df_get_def py_def
      dropna_def counts_sorted_def to_dict_def)

text \<open>
  C4 (amended): for every table with a label column, the per-label counts of the class
  distribution and the number of rows whose label is missing sum to the total record count;
  \<open>value_counts\<close> leaves the missing labels out.
\<close>

theorem class_distribution_sum:
  assumes "wf_df df" and "df_get df (py ''label'') = Some s"
  shows "\<exists>d. class_distribution (fst (fst (dataset_overview p df))) = Some d \<and>
           sum_list (map snd d) + count_missing s =
             total_records (fst (fst (dataset_overview p df)))"
proof -
  have "class_distribution (fst (fst (dataset_overview p df))) = Some (value_counts_sorted s)"
    using assms(2) by (simp add: dataset_overview_def Let_def to_dict_distinct distinct_value_counts)
  moreover have "total_records (fst (fst (dataset_overview p df))) = n_rows df"
    by (simp add: dataset_overview_def Let_def)
  moreover have "sum_list (map snd (value_counts_sorted s)) + count_missing s = n_rows df"
    using sum_value_counts [of s] wf_df_get [OF assms] by simp
  ultimately show ?thesis by simp
qed

text \<open>
  C4 at the table whose third label is missing: the counts sum to two, of three rows.
\<close>

theorem class_distribution_sum_witness:
  "\<exists>d. class_distribution (fst (fst (dataset_overview example_platform missing_label_table))) = Some d \<and>
       sum_list (map snd d) + 1 = 3"
proof -
  have w: "wf_df missing_label_table"
    by (simp add: wf_df_def missing_label_table_def)
  have g: "df_get missing_label_table (py ''label'') = Some (Float64Series [Some 0, Some 1, None])"
    by (simp add: df_get_def missing_label_table_def py_def)
  have t: "total_records (fst (fst (dataset_overview example_platform missing_label_table))) = 3"
    by (simp add: dataset_overview_def Let_def missing_label_table_def)
  have m: "count_missing (Float64Series [Some 0, Some 1, None]) = 1"
    by (simp add: count_missing_def)
  from class_distribution_sum [OF w g, of example_platform] show ?thesis
    by (simp only: t m)
qed

subsection \<open>The length buckets\<close>

text \<open>
  C5: for every table with a text column, the three bucket counts (length below 50; from
  50 and below 200; from 200) sum to the total record count, in what the analyzer prints
  and in the \<open>length_distribution\<close> of the results document.
\<close>

theorem length_buckets_sum:
  assumes "wf_df df" and "df_get df (py ''query'') = Some s"
  shows "\<exists>sh me lo.
           sh = length (filter (\<lambda>l. l < 50) (query_lengths p s)) \<and>
           me = length (filter (\<lambda>l. 50 \<le> l \<and> l < 200) (query_lengths p s)) \<and>
           lo = length (filter (\<lambda>l. 200 \<le> l) (query_lengths p s)) \<and>
           length_distribution_line (snd (fst (dataset_overview p df))) = Some (sh, me, lo) \<and>
           driver_length_distribution p df =
             Some \<lparr>short_queries_under_50 = sh, medium_queries_50_200 = me,
                   long_queries_over_200 = lo\<rparr> \<and>
           sh + me + lo = total_records (fst (fst (dataset_overview p df))) \<and>
           sh + me + lo = n_rows df"
proof -
  have "length (query_lengths p s) = n_rows df"
    using wf_df_get [OF assms] by (simp add: query_lengths_def)
  with buckets_sum [of "query_lengths p s"] assms(2) show ?thesis
    by (simp add: dataset_overview_def Let_def driver_length_distribution_def
        short_queries_def medium_queries_def long_queries_def)
qed

text \<open>
  C5 at the table whose second text is missing: both rows are short.
\<close>

theorem length_buckets_sum_witness:
  "driver_length_distribution example_platform missing_query_table =
     Some \<lparr>short_queries_under_50 = 2, medium_queries_50_200 = 0, long_queries_over_200 = 0\<rparr>"
proof -
  have w: "wf_df missing_query_table"
    by (simp add: wf_df_def missing_query_table_def)
  have g: "df_get missing_query_table (py ''query'') = Some (ObjectSeries [Some (py ''SELECT 1''), None])"
    by (simp add: df_get_def missing_query_table_def py_def)
  have q: "query_lengths example_platform (ObjectSeries [Some (py ''SELECT 1''), None]) = [8, 3]"
    by (simp add: query_lengths_def py_def)
  from length_buckets_sum [OF w g, of example_platform] show ?thesis
    by (simp add: q)
qed

subsection \<open>The sample display\<close>

text \<open>
  C6: the sample at position \<open>i\<close> is shown with its number, the length of its text and
  a preview: the first 200 characters followed by \<open>...\<close> when the text is longer than 200
  characters, the text itself otherwise. A text of 250 characters is cut to 200 characters
  and the marker (203 in all); a text of 150 characters is shown as it is.
\<close>

theorem sample_display_truncation:
  assumes "i < length samples"
  shows "show_samples p samples ! i =
           (Suc i, length (cell_str p (samples ! i)),
            if length (cell_str p (samples ! i)) > 200
            then take 200 (cell_str p (samples ! i)) @ py ''...''
            else cell_str p (samples ! i)) \<and>
         (length (cell_str p (samples ! i)) > 200 \<longrightarrow>
            length (snd (snd (show_samples p samples ! i))) = 203) \<and>
         (length (cell_str p (samples ! i)) = 250 \<longrightarrow>
            snd (snd (show_samples p samples ! i)) = take 200 (cell_str p (samples ! i)) @ py ''...'') \<and>
         (length (cell_str p (samples ! i)) = 150 \<longrightarrow>
            snd (snd (show_samples p samples ! i)) = cell_str p (samples ! i))"
  using assms by (simp add: show_samples_nth display_query_def py_def)

text \<open>
  C6 at a text of 250 characters and a text of 150 characters.
\<close>

theorem sample_display_truncation_witness:
  "show_samples example_platform [Text (replicate 250 65), Text (replicate 150 65)] ! 0 =
     (1, 250, replicate 200 65 @ py ''...'') \<and>
   show_samples example_platform [Text (replicate 250 65), Text (replicate 150 65)] ! 1 =
     (2, 150, replicate 150 65)"
proof -
  let ?s = "[Text (replicate 250 65), Text (replicate 150 65)]"
  have 0: "0 < length ?s" and 1: "1 < length ?s" by simp_all
  from sample_display_truncation [OF 0, of example_platform]
    sample_display_truncation [OF 1, of example_platform]
  show ?thesis by simp
qed

subsection \<open>No mutation\<close>

text \<open>
  Running \<open>dataset_overview\<close> on a store whose address \<open>a\<close> holds the table \<open>t\<close>: the
  report is the one computed from \<open>t\<close>, and the store afterwards is the store before with
  the new objects behind it.
\<close>

definition new_objects :: "platform \<Rightarrow> dataframe \<Rightarrow> pyobj list" where
  "new_objects p t =
     (case df_get t (py ''label'') of
        Some s \<Rightarrow> [SeriesObj s, CountsObj (value_counts_sorted s)]
      | None \<Rightarrow> []) @
     [ColumnSumsObj (isnull_sum t)] @
     (case df_get t (py ''query'') of
        Some s \<Rightarrow> [SeriesObj s, LengthsObj (query_lengths p s)]
      | None \<Rightarrow> [])"

lemma df_get_None_iff: "(df_get t name = None) = (name \<notin> set (df_columns t))"
  by (simp add: df_get_def df_columns_def map_of_eq_None_iff)

lemma frame_at_run:
  "a < length st \<Longrightarrow> st ! a = FrameObj t \<Longrightarrow> frame_at a (st @ new) = (Inr t, st @ new)"
  by (simp add: frame_at_def deref_def eff_bind_def eff_return_def nth_append)

lemma eff_bind_run: "m st = (Inr x, st') \<Longrightarrow> eff_bind m f st = f x st'"
  by (simp add: eff_bind_def)

lemma series_at_run:
  "a < length st \<Longrightarrow> st ! a = SeriesObj s \<Longrightarrow> series_at a st = (Inr s, st)"
  by (simp add: series_at_def deref_def eff_bind_def eff_return_def)

lemma counts_at_run:
  "a < length st \<Longrightarrow> st ! a = CountsObj c \<Longrightarrow> counts_at a st = (Inr c, st)"
  by (simp add: counts_at_def deref_def eff_bind_def eff_return_def)

lemma sums_at_run:
  "a < length st \<Longrightarrow> st ! a = ColumnSumsObj c \<Longrightarrow> sums_at a st = (Inr c, st)"
  by (simp add: sums_at_def deref_def eff_bind_def eff_return_def)

lemma lengths_at_run:
  "a < length st \<Longrightarrow> st ! a = LengthsObj c \<Longrightarrow> lengths_at a st = (Inr c, st)"
  by (simp add: lengths_at_def deref_def eff_bind_def eff_return_def)

lemma label_part_run:
  assumes "a < length st" and "st ! a = FrameObj t" and "df_get t (py ''label'') = Some s"
  shows "eff_bind (df_getitem a (py ''label'')) (\<lambda>labels.
           eff_bind (series_value_counts_sort_index labels) (\<lambda>label_counts.
           eff_bind (counts_balance_ratio label_counts) (\<lambda>balance_ratio.
           eff_return (Some label_counts, Some balance_ratio)))) st =
         (Inr (Some (Suc (length st)), Some (balance_ratio_of (map snd (value_counts_sorted s)))),
          st @ [SeriesObj s, CountsObj (value_counts_sorted s)])"
proof -
  have 1: "df_getitem a (py ''label'') st = (Inr (length st), st @ [SeriesObj s])"
    using frame_at_run [OF assms(1,2), of "[]"] assms(3)
    by (simp add: df_getitem_def eff_bind_def alloc_def)
  have 2: "series_value_counts_sort_index (length st) (st @ [SeriesObj s]) =
             (Inr (Suc (length st)), st @ [SeriesObj s, CountsObj (value_counts_sorted s)])"
    using series_at_run [of "length st" "st @ [SeriesObj s]" s]
    by (simp add: series_value_counts_sort_index_def eff_bind_def alloc_def)
  have 3: "counts_balance_ratio (Suc (length st))
             (st @ [SeriesObj s, CountsObj (value_counts_sorted s)]) =
           (Inr (balance_ratio_of (map snd (value_counts_sorted s))),
            st @ [SeriesObj s, CountsObj (value_counts_sorted s)])"
    using counts_at_run [of "Suc (length st)" "st @ [SeriesObj s, CountsObj (value_counts_sorted s)]"
        "value_counts_sorted s"]
    by (simp add: counts_balance_ratio_def eff_bind_def eff_return_def nth_append)
  show ?thesis by (simp add: eff_bind_def [of "df_getitem a (py ''label'')"] 1
      eff_bind_def [of "series_value_counts_sort_index (length st)"] 2
      eff_bind_def [of "counts_balance_ratio (Suc (length st))"] 3 eff_return_def)
qed

lemma query_part_run:
  assumes "a < length st" and "st ! a = FrameObj t" and "df_get t (py ''query'') = Some s"
  shows "eff_bind (df_getitem a (py ''query'')) (\<lambda>queries.
           eff_bind (series_astype_str_len p queries) (\<lambda>query_lengths.
           eff_bind (lengths_at query_lengths) (\<lambda>ql.
           eff_return (Some ql)))) st =
         (Inr (Some (query_lengths p s)), st @ [SeriesObj s, LengthsObj (query_lengths p s)])"
proof -
  have 1: "df_getitem a (py ''query'') st = (Inr (length st), st @ [SeriesObj s])"
    using frame_at_run [OF assms(1,2), of "[]"] assms(3)
    by (simp add: df_getitem_def eff_bind_def alloc_def)
  have 2: "series_astype_str_len p (length st) (st @ [SeriesObj s]) =
             (Inr (Suc (length st)), st @ [SeriesObj s, LengthsObj (query_lengths p s)])"
    using series_at_run [of "length st" "st @ [SeriesObj s]" s]
    by (simp add: series_astype_str_len_def eff_bind_def alloc_def)
  have 3: "lengths_at (Suc (length st)) (st @ [SeriesObj s, LengthsObj (query_lengths p s)]) =
           (Inr (query_lengths p s), st @ [SeriesObj s, LengthsObj (query_lengths p s)])"
    using lengths_at_run [of "Suc (length st)" "st @ [SeriesObj s, LengthsObj (query_lengths p s)]"
        "query_lengths p s"]
    by (simp add: nth_append)
  show ?thesis by (simp add: eff_bind_def [of "df_getitem a (py ''query'')"] 1
      eff_bind_def [of "series_astype_str_len p (length st)"] 2
      eff_bind_def [of "lengths_at (Suc (length st))"] 3 eff_return_def)
qed

lemma isnull_sum_run:
  assumes "a < length st" and "st ! a = FrameObj t"
  shows "df_isnull_sum a st = (Inr (length st), st @ [ColumnSumsObj (isnull_sum t)])"
  using frame_at_run [OF assms, of "[]"]
  by (simp add: df_isnull_sum_def eff_bind_def alloc_def)

lemma dataset_overview_on_run:
  assumes "a < length st" and "st ! a = FrameObj t"
  shows "dataset_overview_on p a st = (Inr (fst (dataset_overview p t)), st @ new_objects p t)"
proof -
  define st1 where "st1 = st @ (case df_get t (py ''label'') of
        Some s \<Rightarrow> [SeriesObj s, CountsObj (value_counts_sorted s)] | None \<Rightarrow> [])"
  define st2 where "st2 = st1 @ [ColumnSumsObj (isnull_sum t)]"
  define st3 where "st3 = st2 @ (case df_get t (py ''query'') of
        Some s \<Rightarrow> [SeriesObj s, LengthsObj (query_lengths p s)] | None \<Rightarrow> [])"
  define lc where "lc = map_option (\<lambda>s. Suc (length st)) (df_get t (py ''label''))"
  have a1: "a < length st1" and f1: "st1 ! a = FrameObj t"
    using assms by (simp_all add: st1_def nth_append)
  have a2: "a < length st2" and f2: "st2 ! a = FrameObj t"
    using a1 f1 by (simp_all add: st2_def nth_append)
  have r0: "frame_at a st = (Inr t, st)" using frame_at_run [OF assms, of "[]"] by simp
  have h0: "df_len a st = (Inr (n_rows t), st)"
       "df_columns_list a st = (Inr (df_columns t), st)"
       "df_memory_usage p a st = (Inr (memory_usage p t), st)"
    using r0 by (simp_all add: df_len_def df_columns_list_def df_memory_usage_def
        eff_bind_def eff_return_def)
  let ?lab = "if py ''label'' \<in> set (df_columns t)
             then eff_bind (df_getitem a (py ''label'')) (\<lambda>labels.
                  eff_bind (series_value_counts_sort_index labels) (\<lambda>label_counts.
                  eff_bind (counts_balance_ratio label_counts) (\<lambda>balance_ratio.
                  eff_return (Some label_counts, Some balance_ratio))))
             else eff_return (None, None)"
  have h1: "?lab st =
            (Inr (lc, map_option (\<lambda>s. balance_ratio_of (map snd (value_counts_sorted s)))
                        (df_get t (py ''label''))), st1)"
  proof (cases "df_get t (py ''label'')")
    case None
    then have "py ''label'' \<notin> set (df_columns t)" by (simp add: df_get_None_iff)
    with None show ?thesis by (simp add: eff_return_def st1_def lc_def)
  next
    case (Some s)
    then have "py ''label'' \<in> set (df_columns t)" using df_get_None_iff [of t "py ''label''"] by simp
    with Some label_part_run [OF assms Some] show ?thesis by (simp add: st1_def lc_def)
  qed
  have h2: "df_isnull_sum a st1 = (Inr (length st1), st2)"
    using isnull_sum_run [OF a1 f1] by (simp add: st2_def)
  let ?qry = "if py ''query'' \<in> set (df_columns t)
             then eff_bind (df_getitem a (py ''query'')) (\<lambda>queries.
                  eff_bind (series_astype_str_len p queries) (\<lambda>query_lengths.
                  eff_bind (lengths_at query_lengths) (\<lambda>ql.
                  eff_return (Some ql))))
             else eff_return None"
  have h3: "?qry st2 =
            (Inr (map_option (query_lengths p) (df_get t (py ''query''))), st3)"
  proof (cases "df_get t (py ''query'')")
    case None
    then have "py ''query'' \<notin> set (df_columns t)" by (simp add: df_get_None_iff)
    with None show ?thesis by (simp add: eff_return_def st3_def)
  next
    case (Some s)
    then have "py ''query'' \<in> set (df_columns t)" using df_get_None_iff [of t "py ''query''"] by simp
    with Some query_part_run [OF a2 f2 Some] show ?thesis by (simp add: st3_def)
  qed
  let ?dict = "case lc of Some c \<Rightarrow> eff_bind (counts_to_dict c) (\<lambda>d. eff_return (Some d))
             | None \<Rightarrow> eff_return None"
  have h4: "?dict st3 =
            (Inr (map_option (\<lambda>s. to_dict (value_counts_sorted s)) (df_get t (py ''label''))), st3)"
  proof (cases "df_get t (py ''label'')")
    case None
    then show ?thesis by (simp add: lc_def eff_return_def)
  next
    case (Some s)
    have "counts_at (Suc (length st)) st3 = (Inr (value_counts_sorted s), st3)"
      by (rule counts_at_run) (simp_all add: st3_def st2_def st1_def Some nth_append)
    with Some show ?thesis
      by (simp add: lc_def counts_to_dict_def eff_bind_def eff_return_def)
  qed
  have h5: "sums_to_dict (length st1) st3 = (Inr (to_dict (isnull_sum t)), st3)"
  proof -
    have "sums_at (length st1) st3 = (Inr (isnull_sum t), st3)"
      by (rule sums_at_run) (simp_all add: st3_def st2_def nth_append)
    then show ?thesis by (simp add: sums_to_dict_def eff_bind_def eff_return_def)
  qed
  have s3: "st3 = st @ new_objects p t"
    by (simp add: st3_def st2_def st1_def new_objects_def)
  show ?thesis
    unfolding dataset_overview_on_def
    by (simp add: eff_bind_run [of "df_len a" st, OF h0(1)]
        eff_bind_run [of "df_columns_list a" st, OF h0(2)]
        eff_bind_run [of "df_memory_usage p a" st, OF h0(3)]
        eff_bind_run [of ?lab st, OF h1] eff_bind_run [of "df_isnull_sum a" st1, OF h2]
        eff_bind_run [of ?qry st2, OF h3] eff_bind_run [of ?dict st3, OF h4]
        eff_bind_run [of "sums_to_dict (length st1)" st3, OF h5] s3 [symmetric] eff_return_def dataset_overview_def Let_def
        option.map_comp comp_def)
qed

text \<open>
  The new objects for the table whose second text is missing.
\<close>

lemma new_objects_example:
  "new_objects example_platform missing_query_table =
     [SeriesObj (Int64Series [0, 1]), CountsObj [(Integer 0, 1), (Integer 1, 1)],
      ColumnSumsObj [(py ''query'', 1), (py ''label'', 0)],
      SeriesObj (ObjectSeries [Some (py ''SELECT 1''), None]), LengthsObj [8, 3]]"
  by (simp add: new_objects_def missing_query_table_def df_get_def py_def counts_sorted_def
      isnull_sum_def count_missing_def query_lengths_def)

text \<open>
  An assignment in place does change the table's object.
\<close>

lemma df_setitem_attaches:
  assumes "a < length st" and "st ! a = FrameObj t" and "name \<notin> set (df_columns t)"
  shows "df_setitem a name s st =
           (Inr (), st[a := FrameObj (t\<lparr>series_of := series_of t @ [(name, s)]\<rparr>)]) \<and>
         snd (df_setitem a name s st) ! a \<noteq> st ! a"
proof -
  have "series_of t @ [(name, s)] \<noteq> series_of t" by simp
  then have "t\<lparr>series_of := series_of t @ [(name, s)]\<rparr> \<noteq> t"
    by (metis dataframe.select_convs(2) dataframe.surjective dataframe.update_convs(2))
  with assms frame_at_run [OF assms(1,2), of "[]"] show ?thesis
    by (simp add: df_setitem_def eff_bind_def)
qed

text \<open>
  C7: for every store and every table in it, \<open>dataset_overview\<close> returns its report (the
  one computed from the table) and leaves the table's object as it was, with the same columns
  and the same values, and every other object that existed too: all it does to the store is
  to put new objects behind the old ones. In particular no column is attached to the table:
  the lengths are an object of their own.
\<close>

theorem dataset_overview_no_mutation:
  assumes "a < length st" and "st ! a = FrameObj t"
  shows "\<exists>st'. dataset_overview_on p a st = (Inr (fst (dataset_overview p t)), st') \<and>
           st' ! a = FrameObj t \<and>
           take (length st) st' = st \<and>
           (\<forall>name s. st' ! a \<noteq> FrameObj (t\<lparr>series_of := series_of t @ [(name, s)]\<rparr>))"
proof -
  have r: "dataset_overview_on p a st = (Inr (fst (dataset_overview p t)), st @ new_objects p t)"
    by (rule dataset_overview_on_run [OF assms])
  have k: "(st @ new_objects p t) ! a = FrameObj t"
    using assms by (simp add: nth_append)
  have n: "\<And>name s. t\<lparr>series_of := series_of t @ [(name, s)]\<rparr> \<noteq> t"
  proof
    fix name s
    assume "t\<lparr>series_of := series_of t @ [(name, s)]\<rparr> = t"
    then have "series_of (t\<lparr>series_of := series_of t @ [(name, s)]\<rparr>) = series_of t" by simp
    then show False by simp
  qed
  from r k n n [THEN not_sym] show ?thesis by auto
qed

text \<open>
  C7 at the store that holds only the table whose second text is missing.
\<close>

theorem dataset_overview_no_mutation_witness:
  "fst (dataset_overview_on example_platform 0 [FrameObj missing_query_table]) =
     Inr (fst (dataset_overview example_platform missing_query_table)) \<and>
   snd (dataset_overview_on example_platform 0 [FrameObj missing_query_table]) ! 0 =
     FrameObj missing_query_table \<and>
   take 1 (snd (dataset_overview_on example_platform 0 [FrameObj missing_query_table])) =
     [FrameObj missing_query_table]"
proof -
  have 1: "0 < length [FrameObj missing_query_table]" by simp
  have 2: "[FrameObj missing_query_table] ! 0 = FrameObj missing_query_table" by simp
  from dataset_overview_no_mutation [OF 1 2, of example_platform] show ?thesis by auto
qed

subsection \<open>The quality status\<close>

text \<open>
  C8: for a table whose column names are distinct (as the loader's are),
  \<open>missing_values_total\<close> is the number of missing values over all columns,
  \<open>quality_status\<close> is EXCELLENT when that total is zero, and it is NEEDS_ATTENTION
  exactly when the total is not zero.
\<close>

theorem quality_status_missing:
  assumes "distinct (df_columns df)"
  shows "missing_values_total (driver_data_quality (fst (fst (dataset_overview p df)))) =
           sum_list (map (\<lambda>c. count_missing (snd c)) (series_of df)) \<and>
         (sum_list (map (\<lambda>c. count_missing (snd c)) (series_of df)) = 0 \<longrightarrow>
            quality_status (driver_data_quality (fst (fst (dataset_overview p df)))) = py ''EXCELLENT'') \<and>
         ((quality_status (driver_data_quality (fst (fst (dataset_overview p df)))) = py ''NEEDS_ATTENTION'')
            = (sum_list (map (\<lambda>c. count_missing (snd c)) (series_of df)) \<noteq> 0))"
proof -
  have "missing_values (fst (fst (dataset_overview p df))) = isnull_sum df"
    using assms by (simp add: dataset_overview_def Let_def to_dict_distinct isnull_sum_keys)
  then show ?thesis
    using py_quality_differ by (simp add: driver_data_quality_def isnull_sum_def comp_def)
qed

text \<open>
  C8 at the table whose second text is missing: one missing value, NEEDS_ATTENTION.
\<close>

theorem quality_status_missing_witness:
  "quality_status (driver_data_quality (fst (fst (dataset_overview example_platform missing_query_table))))
     = py ''NEEDS_ATTENTION''"
proof -
  have d: "distinct (df_columns missing_query_table)"
    by (simp add: df_columns_def missing_query_table_def py_def)
  have "sum_list (map (\<lambda>c. count_missing (snd c)) (series_of missing_query_table)) = 1"
    by (simp add: missing_query_table_def count_missing_def)
  with quality_status_missing [OF d, of example_platform] show ?thesis by simp
qed

subsection \<open>Missing texts in the length statistics\<close>

text \<open>
  C9: the length statistics of the analyzer and of the driver are those of the series in
  which every missing text stands with length 3, the length of \<open>nan\<close>. The series has an
  entry for every row; each missing text adds 3 to the sum behind the mean and one to the
  short bucket; and the same rows are counted in \<open>missing_values\<close> for the \<open>query\<close>
  column.
\<close>

theorem missing_query_counted_as_nan:
  assumes "wf_df df" and "distinct (df_columns df)" and "df_get df (py ''query'') = Some s"
  shows "let ql = map (\<lambda>v. if v = Missing then 3 else length (cell_str p v)) (values_of s);
             present = filter (\<lambda>v. v \<noteq> Missing) (values_of s);
             stats = \<lparr>avg_length = series_mean ql, median_length = series_median ql,
                      min_length = series_min ql, max_length = series_max ql,
                      std_length = series_std ql\<rparr>;
             ov = fst (fst (dataset_overview p df))
         in query_stats ov = Some stats \<and>
            query_stats_safe p df = Some stats \<and>
            length ql = total_records ov \<and>
            sum_list ql = sum_list (map (\<lambda>v. length (cell_str p v)) present) + 3 * count_missing s \<and>
            short_queries ql =
              short_queries (map (\<lambda>v. length (cell_str p v)) present) + count_missing s \<and>
            length_distribution_line (snd (fst (dataset_overview p df))) =
              Some (short_queries ql, medium_queries ql, long_queries ql) \<and>
            map_of (missing_values ov) (py ''query'') = Some (count_missing s)"
proof -
  let ?ql = "map (\<lambda>v. if v = Missing then 3 else length (cell_str p v)) (values_of s)"
  have ql: "query_lengths p s = ?ql" by (rule query_lengths_missing)
  have a: "query_stats (fst (fst (dataset_overview p df))) =
      Some \<lparr>avg_length = series_mean ?ql, median_length = series_median ?ql,
            min_length = series_min ?ql, max_length = series_max ?ql,
            std_length = series_std ?ql\<rparr>"
    using assms(3) by (simp add: dataset_overview_def Let_def ql)
  have b: "query_stats_safe p df =
      Some \<lparr>avg_length = series_mean ?ql, median_length = series_median ?ql,
            min_length = series_min ?ql, max_length = series_max ?ql,
            std_length = series_std ?ql\<rparr>"
    using assms(3) by (simp add: query_stats_safe_def Let_def ql)
  have c: "length ?ql = total_records (fst (fst (dataset_overview p df)))"
    using wf_df_get [OF assms(1,3)] by (simp add: dataset_overview_def Let_def)
  have d: "sum_list ?ql =
      sum_list (map (\<lambda>v. length (cell_str p v)) (filter (\<lambda>v. v \<noteq> Missing) (values_of s))) +
      3 * count_missing s"
    unfolding count_missing_def by (rule sum_list_missing_split)
  have e: "short_queries ?ql =
      short_queries (map (\<lambda>v. length (cell_str p v)) (filter (\<lambda>v. v \<noteq> Missing) (values_of s))) +
      count_missing s"
    unfolding count_missing_def by (rule short_missing_split)
  have f: "length_distribution_line (snd (fst (dataset_overview p df))) =
      Some (short_queries ?ql, medium_queries ?ql, long_queries ?ql)"
    using assms(3) by (simp add: dataset_overview_def Let_def ql)
  have "missing_values (fst (fst (dataset_overview p df))) = isnull_sum df"
    using assms(2) by (simp add: dataset_overview_def Let_def to_dict_distinct isnull_sum_keys)
  then have g: "map_of (missing_values (fst (fst (dataset_overview p df)))) (py ''query'') =
      Some (count_missing s)"
    using map_of_isnull_sum [OF assms(3)] by simp
  from a b c d e f g show ?thesis unfolding Let_def by blast
qed

text \<open>
  C9 at the table with the texts \<open>SELECT 1\<close> and a missing one: the lengths are 8 and 3.
\<close>

theorem missing_query_counted_as_nan_witness:
  "query_stats (fst (fst (dataset_overview example_platform missing_query_table))) =
     Some \<lparr>avg_length = Fl 5.5, median_length = Fl 5.5, min_length = Fl 3, max_length = Fl 8,
           std_length = Fl (sqrt 12.5)\<rparr> \<and>
   length_distribution_line (snd (fst (dataset_overview example_platform missing_query_table))) =
     Some (2, 0, 0) \<and>
   map_of (missing_values (fst (fst (dataset_overview example_platform missing_query_table))))
     (py ''query'') = Some 1"
proof -
  let ?s = "ObjectSeries [Some (py ''SELECT 1''), None]"
  have w: "wf_df missing_query_table"
    by (simp add: wf_df_def missing_query_table_def)
  have d: "distinct (df_columns missing_query_table)"
    by (simp add: df_columns_def missing_query_table_def py_def)
  have g: "df_get missing_query_table (py ''query'') = Some ?s"
    by (simp add: df_get_def missing_query_table_def py_def)
  have ql: "map (\<lambda>v. if v = Missing then 3 else length (cell_str example_platform v)) (values_of ?s)
      = [8, 3]"
    by (simp add: py_def)
  have m: "count_missing ?s = 1" by (simp add: count_missing_def)
  have s1: "series_mean [8, 3] = Fl 5.5" by (simp add: series_mean_def)
  have s2: "series_median [8, 3] = Fl 5.5" by (simp add: series_median_def Let_def)
  have s3: "series_min [8, 3] = Fl 3" by (simp add: series_min_def)
  have s4: "series_max [8, 3] = Fl 8" by (simp add: series_max_def)
  have s5: "series_std [8, 3] = Fl (sqrt 12.5)"
    by (simp add: series_std_def Let_def power2_eq_square)
  have b: "short_queries [8, 3] = 2 \<and> medium_queries [8, 3] = 0 \<and> long_queries [8, 3] = 0"
    by (simp add: short_queries_def medium_queries_def long_queries_def)
  from missing_query_counted_as_nan [OF w d g, of example_platform] show ?thesis
    unfolding Let_def ql m s1 s2 s3 s4 s5 by (simp add: b)
qed

end
